theory Spec2Isabelle
  imports Main "HOL-Library.Sublist"
begin

section \<open>The code-mod bot of \<open>index.js\<close>\<close>

text \<open>
  The program clones a repository, samples a bounded context from its working tree, asks
  a language model for a patch, applies it with one retry, and publishes a pull request.
  Everything outside the process (file system, model, git, hosting API) is a field of a
  record the functions read; what the program does to the outside is a list of events.

  JavaScript strings are modelled as \<^typ>\<open>string\<close>; \<open>.length\<close> is \<^const>\<open>length\<close>.
  File sizes, the file-count limit and the byte budget are counts (\<^typ>\<open>nat\<close>); the running
  \<open>budget\<close> of the loop is an \<^typ>\<open>int\<close>, so that \<open>budget - size\<close> is the subtraction the
  code performs and not a truncated one.
\<close>

subsection \<open>Errors\<close>

text \<open>Every rejection that reaches \<open>main().catch\<close> and the \<open>process.exit(1)\<close> of the usage check.\<close>

datatype error =
    UsageError
  | CloneFailed
  | CheckoutFailed
  | IOError
  | ModelError
  | PatchFailedTwice
  | CommitFailed
  | PushFailed
  | PublishFailed

subsection \<open>The working tree\<close>

text \<open>
  A file of the working tree: what \<open>fs.stat\<close> reports as \<open>size\<close> and what \<open>fs.readFile\<close>
  returns. A path that is not in the tree makes both calls reject.
\<close>

record fsnode =
  fsize :: nat
  content :: string

type_synonym worktree = "string \<rightharpoonup> fsnode"

subsection \<open>\<open>Array.prototype.join\<close>\<close>

fun join :: "string \<Rightarrow> string list \<Rightarrow> string" where
  "join sep [] = []"
| "join sep [x] = x"
| "join sep (x # y # ys) = x @ sep @ join sep (y # ys)"

subsection \<open>\<open>sampleRepoContext\<close>\<close>

text \<open>
  The \<open>for\<close> loop over the sorted candidates. The state is \<open>picked\<close> and \<open>budget\<close>; the
  \<open>break\<close> returns the state as it is; a rejected \<open>fs.stat\<close> is \<open>Inl IOError\<close>.
\<close>

fun sample_loop ::
  "worktree \<Rightarrow> nat \<Rightarrow> string list \<Rightarrow> int \<Rightarrow> string list \<Rightarrow> error + (string list \<times> int)"
where
  "sample_loop tree maxFiles picked budget [] = Inr (picked, budget)"
| "sample_loop tree maxFiles picked budget (f # fs) =
     (if length picked \<ge> maxFiles then Inr (picked, budget)
      else case tree f of
        None \<Rightarrow> Inl IOError
      | Some nd \<Rightarrow>
          if int (fsize nd) < 3000 \<and> budget - int (fsize nd) > 0
          then sample_loop tree maxFiles (picked @ [f]) (budget - int (fsize nd)) fs
          else sample_loop tree maxFiles picked budget fs)"

text \<open>
  The value of \<open>picked\<close> when the loop ends: the candidates are sorted by path length
  (\<open>Array.prototype.sort\<close> is stable, as \<^const>\<open>sort_key\<close> is), \<open>picked\<close> starts empty and
  \<open>budget\<close> starts at \<open>maxBytes\<close>.
\<close>

definition pickedFiles :: "worktree \<Rightarrow> nat \<Rightarrow> nat \<Rightarrow> string list \<Rightarrow> error + string list" where
  "pickedFiles tree maxFiles maxBytes candidates =
     (case sample_loop tree maxFiles [] (int maxBytes) (sort_key length candidates) of
        Inl e \<Rightarrow> Inl e
      | Inr (picked, budget) \<Rightarrow> Inr picked)"

text \<open>
  \<open>Promise.all(picked.map(...))\<close>: one block per picked file, in order; a rejected read
  rejects the whole.
\<close>

fun readParts :: "worktree \<Rightarrow> string list \<Rightarrow> error + string list" where
  "readParts tree [] = Inr []"
| "readParts tree (f # fs) =
     (case tree f of
        None \<Rightarrow> Inl IOError
      | Some nd \<Rightarrow>
          (case readParts tree fs of
             Inl e \<Rightarrow> Inl e
           | Inr parts \<Rightarrow> Inr ((''FILE: '' @ f @ [CHR 0x0A] @ content nd) # parts)))"

definition END_FILE :: string where
  "END_FILE = [CHR 0x0A, CHR 0x0A] @ ''<<<END FILE>>>'' @ [CHR 0x0A, CHR 0x0A]"

definition sampleRepoContext :: "worktree \<Rightarrow> nat \<Rightarrow> nat \<Rightarrow> string list \<Rightarrow> error + string" where
  "sampleRepoContext tree maxFiles maxBytes candidates =
     (case pickedFiles tree maxFiles maxBytes candidates of
        Inl e \<Rightarrow> Inl e
      | Inr picked \<Rightarrow>
          (case readParts tree picked of
             Inl e \<Rightarrow> Inl e
           | Inr parts \<Rightarrow> Inr (join END_FILE parts)))"

text \<open>The size \<open>fs.stat\<close> reports for a path of the tree, and the byte total of a list of paths.\<close>

definition size_of :: "worktree \<Rightarrow> string \<Rightarrow> nat" where
  "size_of tree f = (case tree f of None \<Rightarrow> 0 | Some nd \<Rightarrow> fsize nd)"

definition total_bytes :: "worktree \<Rightarrow> string list \<Rightarrow> nat" where
  "total_bytes tree fs = sum_list (map (size_of tree) fs)"

subsection \<open>\<open>String.prototype.trim\<close>\<close>

text \<open>
  A \<^typ>\<open>char\<close> stands for a code unit below 256. The white space and line terminators
  that \<open>trim\<close> strips in that range are tab, line feed, vertical tab, form feed, carriage
  return, space and the no-break space.
\<close>

definition is_ws :: "char \<Rightarrow> bool" where
  "is_ws c = (c \<in> {CHR 0x09, CHR 0x0A, CHR 0x0B, CHR 0x0C, CHR 0x0D, CHR 0x20, CHR 0xA0})"

definition trim :: "string \<Rightarrow> string" where
  "trim s = rev (dropWhile is_ws (rev (dropWhile is_ws s)))"

subsection \<open>The outside world and what the run does to it\<close>

datatype role = System | User

type_synonym message = "role \<times> string"

record request =
  model :: string
  temperature :: nat
  messages :: "message list"

record pull_request =
  pr_owner :: string
  pr_repo :: string
  pr_title :: string
  pr_head :: string
  pr_base :: string
  pr_body :: string

text \<open>
  What one run can meet outside the process. \<open>completion n req\<close> is the content of the
  first choice of model call number \<open>n\<close>, counted from 0 (\<open>None\<close>: the call rejects or
  has no content); \<open>git_apply n patch\<close> tells whether \<open>git apply -\<close> number \<open>n\<close> exits
  with status 0 on \<open>patch\<close>. The environment is taken to hold the credentials, so that
  building the clients succeeds. \<open>globby\<close> is the list of candidate paths the glob
  returns for \<open>work_tree\<close>, in discovery order. \<open>default_branch\<close> is the branch the
  remote's \<open>HEAD\<close> names, the one a clone checks out; the program never asks for it.
\<close>

record world =
  argv :: "string list"
  GITHUB_OWNER :: string
  GITHUB_REPO :: string
  GITHUB_TOKEN :: string
  OPENAI_ASSISTANT_MODEL :: "string option"
  now :: string
  mkdtemp_ok :: bool
  clone_ok :: bool
  default_branch :: string
  checkout_ok :: bool
  globby :: "string list"
  work_tree :: worktree
  completion :: "nat \<Rightarrow> request \<Rightarrow> string option"
  git_apply :: "nat \<Rightarrow> string \<Rightarrow> bool"
  commit_ok :: bool
  push_ok :: bool
  create_pr_ok :: bool

text \<open>The console lines, by kind.\<close>

datatype notice = Usage | NoEditsNeeded | PatchFailedNotice | PullRequestOpened string

text \<open>
  The calls that leave the process, in the order they are made. \<open>AskForPatch\<close> carries
  the \<open>extraInstruction\<close> of the call and the request sent; \<open>GitApply\<close> carries the text fed
  to \<open>git apply -\<close> and whether it was accepted; \<open>GitCommit\<close> is \<open>git.add(".").commit(msg)\<close>.
\<close>

datatype event =
    MkdTemp
  | GitClone string
  | GitCheckout string
  | AskForPatch string request
  | GitApply string bool
  | GitCommit string
  | GitPush string
  | PullsCreate pull_request
  | Console notice

datatype outcome = NoChanges | Published

text \<open>An action: the events it caused, and its value or the error that ended it.\<close>

type_synonym 'a io = "event list \<times> (error + 'a)"

definition bind_io :: "'a io \<Rightarrow> ('a \<Rightarrow> 'b io) \<Rightarrow> 'b io" where
  "bind_io m k =
     (case m of
        (es, Inl e) \<Rightarrow> (es, Inl e)
      | (es, Inr a) \<Rightarrow> (case k a of (es', r) \<Rightarrow> (es @ es', r)))"

text \<open>One awaited call that either succeeds or rejects.\<close>

definition step :: "event \<Rightarrow> bool \<Rightarrow> error \<Rightarrow> unit io" where
  "step e ok err = ([e], if ok then Inr () else Inl err)"

subsection \<open>\<open>askForPatch\<close>\<close>

definition SYSTEM_PROMPT :: string where
  "SYSTEM_PROMPT = join [CHR 0x0A]
     [[],
      ''You are an expert software-engineering code-mod bot.'',
      ''Return ONLY valid output produced by:'',
      ''    git diff --no-prefix -U1000'',
      ''(each file chunk MUST start with:'',
      ''    diff --git a/<path> b/<path>'',
      ''    --- a/<path>     or /dev/null'',
      ''    +++ b/<path>)'',
      ''If you create a new file, include:'',
      ''    new file mode 100644'',
      ''If no change is needed, output exactly __NO_CHANGES__ (no extra text).'']"

definition patch_request :: "world \<Rightarrow> string \<Rightarrow> string \<Rightarrow> string \<Rightarrow> request" where
  "patch_request w contextBlob task extraInstruction =
     \<lparr>model = (case OPENAI_ASSISTANT_MODEL w of
                 None \<Rightarrow> ''gpt-4o-mini''
               | Some m \<Rightarrow> if m = [] then ''gpt-4o-mini'' else m),
      temperature = 0,
      messages =
        [(System, trim SYSTEM_PROMPT),
         (User, ''Repository context:'' @ [CHR 0x0A] @ contextBlob),
         (User, ''TASK:'' @ [CHR 0x0A] @ task @ [CHR 0x0A] @ extraInstruction)]\<rparr>"

text \<open>The \<open>n\<close>-th call of \<open>askForPatch\<close>; it returns the trimmed content.\<close>

definition askForPatch :: "world \<Rightarrow> string \<Rightarrow> string \<Rightarrow> nat \<Rightarrow> string \<Rightarrow> string io" where
  "askForPatch w contextBlob task n extraInstruction =
     (let req = patch_request w contextBlob task extraInstruction
      in ([AskForPatch extraInstruction req],
          case completion w n req of
            None \<Rightarrow> Inl ModelError
          | Some c \<Rightarrow> Inr (trim c)))"

subsection \<open>\<open>applyOrRetry\<close>\<close>

definition RETRY_INSTRUCTION :: string where
  "RETRY_INSTRUCTION =
     ''The previous patch failed to apply. '' @
     ''Re-emit the ENTIRE diff (with headers) and ensure it applies.''"

text \<open>
  \<open>run("git", ["apply", "-"], tmpDir, patch)\<close> in a \<open>try\<close>: the first attempt is apply
  number 0, the retry is apply number 1 and follows model call number 1.
\<close>

function applyOrRetry :: "world \<Rightarrow> string \<Rightarrow> string \<Rightarrow> string \<Rightarrow> bool \<Rightarrow> string io" where
  "applyOrRetry w contextBlob task patch isRetry =
     (if git_apply w (if isRetry then 1 else 0) patch
      then ([GitApply patch True], Inr patch)
      else if isRetry then ([GitApply patch False], Inl PatchFailedTwice)
      else bind_io ([GitApply patch False, Console PatchFailedNotice], Inr ()) (\<lambda>_.
           bind_io (askForPatch w contextBlob task 1 RETRY_INSTRUCTION) (\<lambda>fresh.
           applyOrRetry w contextBlob task fresh True)))"
  by pat_completeness auto
termination
  by (relation "measure (\<lambda>(w, contextBlob, task, patch, isRetry). if isRetry then 0 else 1)")
     auto

declare applyOrRetry.simps [simp del]

subsection \<open>\<open>main\<close>\<close>

definition main :: "world \<Rightarrow> outcome io" where
  "main w =
     (let task = join '' '' (argv w) in
      if task = [] then ([Console Usage], Inl UsageError)
      else
        let remote = ''https://x-access-token:'' @ GITHUB_TOKEN w @ ''@github.com/''
                       @ GITHUB_OWNER w @ ''/'' @ GITHUB_REPO w @ ''.git'';
            branch = ''ai-task-'' @ now w
        in
        bind_io (step MkdTemp (mkdtemp_ok w) IOError) (\<lambda>_.
        bind_io (step (GitClone remote) (clone_ok w) CloneFailed) (\<lambda>_.
        bind_io (step (GitCheckout branch) (checkout_ok w) CheckoutFailed) (\<lambda>_.
        bind_io ([], sampleRepoContext (work_tree w) 25 40000 (globby w)) (\<lambda>contextBlob.
        bind_io (askForPatch w contextBlob task 0 []) (\<lambda>diff.
          if diff = ''__NO_CHANGES__'' then ([Console NoEditsNeeded], Inr NoChanges)
          else
            bind_io (applyOrRetry w contextBlob task diff False) (\<lambda>diff.
            bind_io (step (GitCommit (''AI: '' @ task)) (commit_ok w) CommitFailed) (\<lambda>_.
            bind_io (step (GitPush branch) (push_ok w) PushFailed) (\<lambda>_.
            bind_io (step (PullsCreate
                       \<lparr>pr_owner = GITHUB_OWNER w,
                        pr_repo = GITHUB_REPO w,
                        pr_title = ''AI: '' @ task,
                        pr_head = branch,
                        pr_base = ''main'',
                        pr_body = ''Automated patch generated by OpenAI''
                                    @ [CHR 0x0A, CHR 0x0A] @ ''Task:'' @ [CHR 0x0A] @ task\<rparr>)
                     (create_pr_ok w) PublishFailed) (\<lambda>_.
            ([Console (PullRequestOpened branch)], Inr Published)))))))))))"

subsection \<open>The steps of \<open>main\<close> around the patch\<close>

text \<open>
  Steps 1 and 2 of \<open>main\<close> (temporary directory, clone, branch, context) and steps 5 and 6
  (commit, push, pull request), named on their own for the proofs: \<open>main_phases\<close> below
  shows that \<^const>\<open>main\<close> is these steps around the model call and \<^const>\<open>applyOrRetry\<close>.
\<close>

definition setup_steps :: "world \<Rightarrow> string io" where
  "setup_steps w =
     bind_io (step MkdTemp (mkdtemp_ok w) IOError) (\<lambda>_.
     bind_io (step (GitClone (''https://x-access-token:'' @ GITHUB_TOKEN w @ ''@github.com/''
                       @ GITHUB_OWNER w @ ''/'' @ GITHUB_REPO w @ ''.git''))
                (clone_ok w) CloneFailed) (\<lambda>_.
     bind_io (step (GitCheckout (''ai-task-'' @ now w)) (checkout_ok w) CheckoutFailed) (\<lambda>_.
     ([], sampleRepoContext (work_tree w) 25 40000 (globby w)))))"

definition the_pull_request :: "world \<Rightarrow> pull_request" where
  "the_pull_request w =
     \<lparr>pr_owner = GITHUB_OWNER w,
      pr_repo = GITHUB_REPO w,
      pr_title = ''AI: '' @ join '' '' (argv w),
      pr_head = ''ai-task-'' @ now w,
      pr_base = ''main'',
      pr_body = ''Automated patch generated by OpenAI''
                  @ [CHR 0x0A, CHR 0x0A] @ ''Task:'' @ [CHR 0x0A] @ join '' '' (argv w)\<rparr>"

definition publish_steps :: "world \<Rightarrow> outcome io" where
  "publish_steps w =
     bind_io (step (GitCommit (''AI: '' @ join '' '' (argv w))) (commit_ok w) CommitFailed) (\<lambda>_.
     bind_io (step (GitPush (''ai-task-'' @ now w)) (push_ok w) PushFailed) (\<lambda>_.
     bind_io (step (PullsCreate (the_pull_request w)) (create_pr_ok w) PublishFailed) (\<lambda>_.
     ([Console (PullRequestOpened (''ai-task-'' @ now w))], Inr Published))))"

subsection \<open>Reading a trace\<close>

fun is_apply :: "event \<Rightarrow> bool" where
  "is_apply (GitApply p ok) = True"
| "is_apply e = False"

fun is_failed_apply :: "event \<Rightarrow> bool" where
  "is_failed_apply (GitApply p ok) = (\<not> ok)"
| "is_failed_apply e = False"

text \<open>A corrective re-request is a model call with an extra instruction.\<close>

fun is_rerequest :: "event \<Rightarrow> bool" where
  "is_rerequest (AskForPatch extra req) = (extra \<noteq> [])"
| "is_rerequest e = False"

fun is_pulls_create :: "event \<Rightarrow> bool" where
  "is_pulls_create (PullsCreate pr) = True"
| "is_pulls_create e = False"

text \<open>The commit, push and pull-request steps.\<close>

fun is_publication :: "event \<Rightarrow> bool" where
  "is_publication (GitCommit m) = True"
| "is_publication (GitPush b) = True"
| "is_publication (PullsCreate pr) = True"
| "is_publication e = False"

text \<open>A small tree for the concrete runs below.\<close>

definition demo_tree :: worktree where
  "demo_tree =
     [''a.js'' \<mapsto> \<lparr>fsize = 200, content = ''let a;''\<rparr>,
      ''bb.js'' \<mapsto> \<lparr>fsize = 10, content = ''let b;''\<rparr>,
      ''big.js'' \<mapsto> \<lparr>fsize = 3000, content = ''big''\<rparr>,
      ''package.json'' \<mapsto> \<lparr>fsize = 90, content = ''{}''\<rparr>]"

definition demo_tree2 :: worktree where
  "demo_tree2 = demo_tree(''zz.py'' \<mapsto> \<lparr>fsize = 5, content = ''pass''\<rparr>)"

text \<open>
  A world for the concrete runs below: the model answers with \<open>responses\<close>, call by call,
  and \<open>git apply\<close> accepts as \<open>accepted\<close> says, attempt by attempt. The repository's
  default branch is \<open>master\<close>.
\<close>

definition demo_world :: "string list \<Rightarrow> bool list \<Rightarrow> world" where
  "demo_world responses accepted =
     \<lparr>argv = [''add'', ''LICENSE''],
      GITHUB_OWNER = ''octo'',
      GITHUB_REPO = ''demo'',
      GITHUB_TOKEN = ''t0'',
      OPENAI_ASSISTANT_MODEL = None,
      now = ''1700000000000'',
      mkdtemp_ok = True,
      clone_ok = True,
      default_branch = ''master'',
      checkout_ok = True,
      globby = [''bb.js'', ''a.js''],
      work_tree = demo_tree,
      completion = (\<lambda>n req. if n < length responses then Some (responses ! n) else None),
      git_apply = (\<lambda>n patch. n < length accepted \<and> accepted ! n),
      commit_ok = True,
      push_ok = True,
      create_pr_ok = True\<rparr>"

definition demo_context :: string where
  "demo_context = ''FILE: a.js'' @ [CHR 0x0A] @ ''let a;'' @ END_FILE
                    @ ''FILE: bb.js'' @ [CHR 0x0A] @ ''let b;''"

text \<open>
  Five runs: both patches rejected; the first patch accepted; the sentinel with white
  space around it; the sentinel followed by a remark; the sentinel as the retry's answer.
\<close>

definition twice_rejected :: world where
  "twice_rejected = demo_world ['' not a diff '', ''still not a diff''] [False, False]"

definition accepted_first :: world where
  "accepted_first = demo_world [''diff --git a/LICENSE b/LICENSE''] [True]"

definition padded_sentinel :: world where
  "padded_sentinel = demo_world [''  __NO_CHANGES__ ''] []"

definition chatty_sentinel :: world where
  "chatty_sentinel = demo_world [''__NO_CHANGES__ (nothing to do)''] [False]"

definition sentinel_on_retry :: world where
  "sentinel_on_retry = demo_world ['' not a diff '', ''__NO_CHANGES__''] [False, False]"

section \<open>Properties of the sampler\<close>

lemma sample_loop_inv:
  "sample_loop tree maxFiles picked budget fs = Inr (picked', budget') \<Longrightarrow>
     \<exists>added. picked' = picked @ added \<and> subseq added fs
       \<and> budget' = budget - int (total_bytes tree added)
       \<and> (\<forall>f \<in> set added. \<exists>nd. tree f = Some nd \<and> fsize nd < 3000)
       \<and> (added \<noteq> [] \<longrightarrow> 0 < budget')
       \<and> (length picked \<le> maxFiles \<longrightarrow> length picked' \<le> maxFiles)"
proof (induction fs arbitrary: picked budget)
  case Nil
  then show ?case by (simp add: total_bytes_def)
next
  case (Cons f fs)
  show ?case
  proof (cases "length picked \<ge> maxFiles")
    case True
    with Cons.prems show ?thesis by (simp add: total_bytes_def)
  next
    case False
    with Cons.prems obtain nd where nd: "tree f = Some nd"
      by (auto split: option.splits)
    show ?thesis
    proof (cases "int (fsize nd) < 3000 \<and> budget - int (fsize nd) > 0")
      case True
      with False nd Cons.prems
      have "sample_loop tree maxFiles (picked @ [f]) (budget - int (fsize nd)) fs
              = Inr (picked', budget')"
        by simp
      from Cons.IH [OF this] obtain added where a:
        "picked' = (picked @ [f]) @ added" "subseq added fs"
        "budget' = budget - int (fsize nd) - int (total_bytes tree added)"
        "\<forall>f \<in> set added. \<exists>nd. tree f = Some nd \<and> fsize nd < 3000"
        "added \<noteq> [] \<longrightarrow> 0 < budget'"
        "length (picked @ [f]) \<le> maxFiles \<longrightarrow> length picked' \<le> maxFiles"
        by blast
      have pos: "0 < budget'"
      proof (cases "added = []")
        case True
        with a(3) \<open>int (fsize nd) < 3000 \<and> budget - int (fsize nd) > 0\<close> show ?thesis
          by (simp add: total_bytes_def)
      next
        case False
        with a(5) show ?thesis by simp
      qed
      have "picked' = picked @ (f # added)" using a(1) by simp
      moreover have "subseq (f # added) (f # fs)" using a(2) by simp
      moreover have "budget' = budget - int (total_bytes tree (f # added))"
        using a(3) nd by (simp add: total_bytes_def size_of_def)
      moreover have "\<forall>g \<in> set (f # added). \<exists>nd. tree g = Some nd \<and> fsize nd < 3000"
        using a(4) nd True by simp
      moreover have "length picked \<le> maxFiles \<longrightarrow> length picked' \<le> maxFiles"
        using a(6) False by simp
      ultimately show ?thesis using pos by blast
    next
      case reject: False
      with False nd Cons.prems
      have "sample_loop tree maxFiles picked budget fs = Inr (picked', budget')"
        by auto
      from Cons.IH [OF this] obtain added where a:
        "picked' = picked @ added" "subseq added fs"
        "budget' = budget - int (total_bytes tree added)"
        "\<forall>f \<in> set added. \<exists>nd. tree f = Some nd \<and> fsize nd < 3000"
        "added \<noteq> [] \<longrightarrow> 0 < budget'"
        "length picked \<le> maxFiles \<longrightarrow> length picked' \<le> maxFiles"
        by blast
      from a(2) have "subseq added (f # fs)" by (rule list_emb_Cons)
      with a show ?thesis by blast
    qed
  qed
qed

lemma pickedFiles_inv:
  assumes "pickedFiles tree maxFiles maxBytes candidates = Inr picked"
  shows "subseq picked (sort_key length candidates)"
    and "length picked \<le> maxFiles"
    and "\<forall>f \<in> set picked. \<exists>nd. tree f = Some nd \<and> fsize nd < 3000"
    and "picked \<noteq> [] \<Longrightarrow> total_bytes tree picked < maxBytes"
    and "total_bytes tree picked \<le> maxBytes"
proof -
  from assms obtain budget' where
    "sample_loop tree maxFiles [] (int maxBytes) (sort_key length candidates)
       = Inr (picked, budget')"
    by (auto simp: pickedFiles_def split: sum.splits)
  from sample_loop_inv [OF this] have a:
    "subseq picked (sort_key length candidates)"
    "budget' = int maxBytes - int (total_bytes tree picked)"
    "\<forall>f \<in> set picked. \<exists>nd. tree f = Some nd \<and> fsize nd < 3000"
    "picked \<noteq> [] \<longrightarrow> 0 < budget'"
    "length picked \<le> maxFiles"
    by auto
  show "subseq picked (sort_key length candidates)" by (rule a(1))
  show "length picked \<le> maxFiles" by (rule a(5))
  show "\<forall>f \<in> set picked. \<exists>nd. tree f = Some nd \<and> fsize nd < 3000" by (rule a(3))
  show lt: "picked \<noteq> [] \<Longrightarrow> total_bytes tree picked < maxBytes"
    using a(2,4) by linarith
  show "total_bytes tree picked \<le> maxBytes"
  proof (cases "picked = []")
    case True
    then show ?thesis by (simp add: total_bytes_def)
  next
    case False
    from lt [OF this] show ?thesis by simp
  qed
qed

text \<open>The bundle is one block per admitted file, in admission order.\<close>

lemma readParts_length: "readParts tree fs = Inr parts \<Longrightarrow> length parts = length fs"
  by (induction fs arbitrary: parts) (auto split: option.splits sum.splits)

lemma sampleRepoContext_picked:
  assumes "sampleRepoContext tree maxFiles maxBytes candidates = Inr blob"
  shows "\<exists>picked parts. pickedFiles tree maxFiles maxBytes candidates = Inr picked
           \<and> readParts tree picked = Inr parts \<and> length parts = length picked
           \<and> blob = join END_FILE parts"
  using assms
  by (auto simp: sampleRepoContext_def readParts_length split: sum.splits)

lemma demo_sorted:
  "sort_key length [''package.json'', ''big.js'', ''bb.js'', ''a.js'']
     = [''a.js'', ''bb.js'', ''big.js'', ''package.json'']"
  by simp

lemma demo_picked:
  "pickedFiles demo_tree 25 40000 [''package.json'', ''big.js'', ''bb.js'', ''a.js'']
     = Inr [''a.js'', ''bb.js'', ''package.json'']"
  by (simp add: pickedFiles_def demo_tree_def)

text \<open>
  C3. For every working tree, file-count limit and byte budget, the files the sampler
  admits have sizes that sum to at most the byte budget, and there are at most as many
  of them as the file-count limit.
\<close>

theorem bundle_within_limits:
  "pickedFiles tree maxFiles maxBytes candidates = Inr picked \<Longrightarrow>
     total_bytes tree picked \<le> maxBytes \<and> length picked \<le> maxFiles"
  using pickedFiles_inv(2,5) by blast

theorem bundle_within_limits_witness:
  "pickedFiles demo_tree 2 40000 [''package.json'', ''big.js'', ''bb.js'', ''a.js'']
     = Inr [''a.js'', ''bb.js'']
   \<and> total_bytes demo_tree [''a.js'', ''bb.js''] \<le> 40000
   \<and> length [''a.js'', ''bb.js''] \<le> (2::nat)"
proof -
  have h: "pickedFiles demo_tree 2 40000 [''package.json'', ''big.js'', ''bb.js'', ''a.js'']
     = Inr [''a.js'', ''bb.js'']"
    by (simp add: pickedFiles_def demo_tree_def)
  from bundle_within_limits [OF h] h show ?thesis by simp
qed

text \<open>
  C8. A candidate whose size is 3000 bytes or more is never among the admitted files,
  whatever the byte budget is.
\<close>

theorem oversized_never_included:
  "pickedFiles tree maxFiles maxBytes candidates = Inr picked \<Longrightarrow>
     tree f = Some nd \<Longrightarrow> 3000 \<le> fsize nd \<Longrightarrow> f \<notin> set picked"
  using pickedFiles_inv(3) by fastforce

theorem oversized_never_included_witness:
  "pickedFiles demo_tree 25 40000 [''package.json'', ''big.js'', ''bb.js'', ''a.js'']
     = Inr [''a.js'', ''bb.js'', ''package.json'']
   \<and> demo_tree ''big.js'' = Some \<lparr>fsize = 3000, content = ''big''\<rparr>
   \<and> ''big.js'' \<notin> set [''a.js'', ''bb.js'', ''package.json'']"
proof -
  have h2: "demo_tree ''big.js'' = Some \<lparr>fsize = 3000, content = ''big''\<rparr>"
    by (simp add: demo_tree_def)
  have h3: "3000 \<le> fsize \<lparr>fsize = 3000, content = ''big''\<rparr>"
    by simp
  from oversized_never_included [OF demo_picked h2 h3] demo_picked h2
  show ?thesis by simp
qed

subsection \<open>What stops the loop and what does not\<close>

lemma sample_loop_cap:
  "maxFiles \<le> length picked \<Longrightarrow>
     sample_loop tree maxFiles picked budget fs = Inr (picked, budget)"
  by (cases fs) simp_all

lemma sample_loop_skip:
  assumes "tree f = Some nd" and "budget - int (fsize nd) \<le> 0"
  shows "sample_loop tree maxFiles picked budget (f # fs)
           = sample_loop tree maxFiles picked budget fs"
proof (cases "maxFiles \<le> length picked")
  case True
  then show ?thesis by (simp add: sample_loop_cap)
next
  case False
  with assms show ?thesis by simp
qed

lemma sample_loop_budget:
  assumes "sample_loop tree maxFiles picked budget fs = Inr (picked', budget')"
  shows "budget' \<le> budget" and "0 < budget \<Longrightarrow> 0 < budget'"
proof -
  from sample_loop_inv [OF assms] obtain added where a:
    "budget' = budget - int (total_bytes tree added)" "added \<noteq> [] \<longrightarrow> 0 < budget'"
    by blast
  from a(1) show "budget' \<le> budget" by simp
  show "0 < budget'" if "0 < budget"
  proof (cases "added = []")
    case True
    with a(1) that show ?thesis by (simp add: total_bytes_def)
  next
    case False
    with a(2) show ?thesis by simp
  qed
qed

lemma sample_loop_admit:
  assumes "length picked < maxFiles" and "tree f = Some nd"
    and "fsize nd < 3000" and "0 < budget - int (fsize nd)"
  shows "sample_loop tree maxFiles picked budget (f # fs)
           = sample_loop tree maxFiles (picked @ [f]) (budget - int (fsize nd)) fs"
    and "sample_loop tree maxFiles picked budget (f # fs) = Inr (p, b) \<Longrightarrow> f \<in> set p"
proof -
  from assms show step:
    "sample_loop tree maxFiles picked budget (f # fs)
       = sample_loop tree maxFiles (picked @ [f]) (budget - int (fsize nd)) fs"
    by simp
  assume "sample_loop tree maxFiles picked budget (f # fs) = Inr (p, b)"
  with step
  have "sample_loop tree maxFiles (picked @ [f]) (budget - int (fsize nd)) fs = Inr (p, b)"
    by simp
  from sample_loop_inv [OF this] obtain added where "p = (picked @ [f]) @ added"
    by blast
  then show "f \<in> set p" by simp
qed

text \<open>
  C1, as the code has it. The loop stops at the file-count cap: from a state whose
  \<open>picked\<close> has reached the cap, no later candidate is admitted. Below the cap, a
  candidate under 3000 bytes whose admission leaves a positive budget is admitted: it is
  appended to \<open>picked\<close>, its full size is taken off the budget, and it is among the files
  the loop returns. A candidate whose admission would drive the remaining budget to zero
  or below is skipped whole and the loop goes on with the candidates after it, admitting
  those that fit. The files admitted are a subsequence of the candidates walked, the
  budget decreases by the full size of each of them, never increases, and a positive
  budget stays positive.
\<close>

theorem sampling_stops_only_at_file_cap:
  "(maxFiles \<le> length picked \<longrightarrow>
      sample_loop tree maxFiles picked budget fs = Inr (picked, budget))
   \<and> (length picked < maxFiles \<and> tree f = Some nd
        \<and> fsize nd < 3000 \<and> 0 < budget - int (fsize nd) \<longrightarrow>
        sample_loop tree maxFiles picked budget (f # fs)
          = sample_loop tree maxFiles (picked @ [f]) (budget - int (fsize nd)) fs
        \<and> (\<forall>p b. sample_loop tree maxFiles picked budget (f # fs) = Inr (p, b)
               \<longrightarrow> f \<in> set p))
   \<and> (tree f = Some nd \<and> budget - int (fsize nd) \<le> 0 \<longrightarrow>
        sample_loop tree maxFiles picked budget (f # fs)
          = sample_loop tree maxFiles picked budget fs)
   \<and> (sample_loop tree maxFiles picked budget fs = Inr (picked', budget') \<longrightarrow>
        (\<exists>added. picked' = picked @ added \<and> subseq added fs
           \<and> budget' = budget - int (total_bytes tree added))
        \<and> budget' \<le> budget \<and> (0 < budget \<longrightarrow> 0 < budget'))"
proof (intro conjI impI allI)
  show "sample_loop tree maxFiles picked budget fs = Inr (picked, budget)"
    if "maxFiles \<le> length picked"
    using that by (rule sample_loop_cap)
  show "sample_loop tree maxFiles picked budget (f # fs)
          = sample_loop tree maxFiles (picked @ [f]) (budget - int (fsize nd)) fs"
    if "length picked < maxFiles \<and> tree f = Some nd
          \<and> fsize nd < 3000 \<and> 0 < budget - int (fsize nd)"
    using that sample_loop_admit(1) by blast
  show "f \<in> set p"
    if "length picked < maxFiles \<and> tree f = Some nd
          \<and> fsize nd < 3000 \<and> 0 < budget - int (fsize nd)"
      and "sample_loop tree maxFiles picked budget (f # fs) = Inr (p, b)" for p b
    using that sample_loop_admit(2) by blast
  show "sample_loop tree maxFiles picked budget (f # fs)
          = sample_loop tree maxFiles picked budget fs"
    if "tree f = Some nd \<and> budget - int (fsize nd) \<le> 0"
    using that sample_loop_skip by blast
  show "\<exists>added. picked' = picked @ added \<and> subseq added fs
           \<and> budget' = budget - int (total_bytes tree added)"
    if "sample_loop tree maxFiles picked budget fs = Inr (picked', budget')"
    using sample_loop_inv [OF that] by blast
  show "budget' \<le> budget"
    if "sample_loop tree maxFiles picked budget fs = Inr (picked', budget')"
    using that by (rule sample_loop_budget(1))
  show "0 < budget'"
    if "sample_loop tree maxFiles picked budget fs = Inr (picked', budget')" and "0 < budget"
    using that by (rule sample_loop_budget(2))
qed

text \<open>
  C1 as stated fails: with a budget of 100, \<open>a.js\<close> (200 bytes) comes first in the sorted
  list and admitting it would leave \<open>-100\<close>; the later \<open>bb.js\<close> is admitted all the same.
\<close>

theorem later_file_admitted_after_budget_rejection:
  "sort_key length [''bb.js'', ''a.js''] = [''a.js'', ''bb.js'']
   \<and> demo_tree ''a.js'' = Some \<lparr>fsize = 200, content = ''let a;''\<rparr>
   \<and> (100::int) - int (fsize \<lparr>fsize = 200, content = ''let a;''\<rparr>) \<le> 0
   \<and> pickedFiles demo_tree 25 100 [''bb.js'', ''a.js''] = Inr [''bb.js'']"
  by (simp add: pickedFiles_def demo_tree_def)

text \<open>
  At the cap of one file, \<open>package.json\<close> is left out although it fits, and with the cap
  of 25 it is admitted. With a budget of 100, \<open>a.js\<close> is skipped and \<open>bb.js\<close>, after it,
  is admitted and returned.
\<close>

theorem sampling_stops_only_at_file_cap_witness:
  "sample_loop demo_tree 1 [''bb.js''] 1000 [''package.json''] = Inr ([''bb.js''], 1000)
   \<and> sample_loop demo_tree 25 [''bb.js''] 1000 [''package.json'']
        = Inr ([''bb.js'', ''package.json''], 910)
   \<and> sample_loop demo_tree 25 [] 100 [''a.js'', ''bb.js'']
        = sample_loop demo_tree 25 [] 100 [''bb.js'']
   \<and> sample_loop demo_tree 25 [] 100 [''bb.js''] = Inr ([''bb.js''], 90)
   \<and> ''bb.js'' \<in> set [''bb.js'']
   \<and> (90::int) \<le> 100 \<and> (0::int) < 90"
proof -
  have cap: "(1::nat) \<le> length [''bb.js'']" by simp
  have pkg: "length [''bb.js''] < (25::nat)
      \<and> demo_tree ''package.json'' = Some \<lparr>fsize = 90, content = ''{}''\<rparr>
      \<and> fsize \<lparr>fsize = 90, content = ''{}''\<rparr> < 3000
      \<and> 0 < (1000::int) - int (fsize \<lparr>fsize = 90, content = ''{}''\<rparr>)"
    by (simp add: demo_tree_def)
  have big: "demo_tree ''a.js'' = Some \<lparr>fsize = 200, content = ''let a;''\<rparr>
      \<and> (100::int) - int (fsize \<lparr>fsize = 200, content = ''let a;''\<rparr>) \<le> 0"
    by (simp add: demo_tree_def)
  have small: "length ([]::string list) < (25::nat)
      \<and> demo_tree ''bb.js'' = Some \<lparr>fsize = 10, content = ''let b;''\<rparr>
      \<and> fsize \<lparr>fsize = 10, content = ''let b;''\<rparr> < 3000
      \<and> 0 < (100::int) - int (fsize \<lparr>fsize = 10, content = ''let b;''\<rparr>)"
    by (simp add: demo_tree_def)
  have a: "sample_loop demo_tree 1 [''bb.js''] 1000 [''package.json'']
             = Inr ([''bb.js''], 1000)"
    using sampling_stops_only_at_file_cap
      [of 1 "[''bb.js'']" demo_tree 1000 "[''package.json'']"] cap
    by blast
  have "sample_loop demo_tree 25 [''bb.js''] 1000 [''package.json'']
          = sample_loop demo_tree 25 ([''bb.js''] @ [''package.json''])
              (1000 - int (fsize \<lparr>fsize = 90, content = ''{}''\<rparr>)) []"
    using sampling_stops_only_at_file_cap
      [of 25 "[''bb.js'']" demo_tree 1000 "[]" "''package.json''"
          "\<lparr>fsize = 90, content = ''{}''\<rparr>"] pkg
    by blast
  then have b: "sample_loop demo_tree 25 [''bb.js''] 1000 [''package.json'']
          = Inr ([''bb.js'', ''package.json''], 910)"
    by simp
  have c: "sample_loop demo_tree 25 [] 100 [''a.js'', ''bb.js'']
        = sample_loop demo_tree 25 [] 100 [''bb.js'']"
    using sampling_stops_only_at_file_cap
      [of 25 "[]" demo_tree 100 "[''bb.js'']" "''a.js''"
          "\<lparr>fsize = 200, content = ''let a;''\<rparr>"] big
    by blast
  note adm = sampling_stops_only_at_file_cap
      [of 25 "[]" demo_tree 100 "[]" "''bb.js''" "\<lparr>fsize = 10, content = ''let b;''\<rparr>"]
  from adm small
  have "sample_loop demo_tree 25 [] 100 [''bb.js'']
          = sample_loop demo_tree 25 ([] @ [''bb.js''])
              (100 - int (fsize \<lparr>fsize = 10, content = ''let b;''\<rparr>)) []"
    by blast
  then have d: "sample_loop demo_tree 25 [] 100 [''bb.js''] = Inr ([''bb.js''], 90)"
    by simp
  from adm small d have e: "''bb.js'' \<in> set [''bb.js'']" by blast
  have g: "(90::int) \<le> 100 \<and> (0::int) < 90"
    using sampling_stops_only_at_file_cap
      [of 25 "[]" demo_tree 100 "[''bb.js'']" _ _ "[''bb.js'']" 90] d
    by simp
  from a b c d e g show ?thesis by blast
qed

text \<open>
  C10, as the code has it. Admission is strict: a candidate whose size equals the
  remaining budget is skipped. So whenever the configured budget is positive, the byte
  total of the admitted files is strictly below it.
\<close>

theorem budget_admission_strict:
  "(tree f = Some nd \<and> int (fsize nd) = budget \<longrightarrow>
      sample_loop tree maxFiles picked budget (f # fs)
        = sample_loop tree maxFiles picked budget fs)
   \<and> (0 < maxBytes \<and> pickedFiles tree maxFiles maxBytes candidates = Inr picked' \<longrightarrow>
        total_bytes tree picked' < maxBytes)"
proof (intro conjI impI)
  assume "tree f = Some nd \<and> int (fsize nd) = budget"
  then have "tree f = Some nd" and "budget - int (fsize nd) \<le> 0" by simp_all
  then show "sample_loop tree maxFiles picked budget (f # fs)
        = sample_loop tree maxFiles picked budget fs"
    by (rule sample_loop_skip)
next
  assume h: "0 < maxBytes \<and> pickedFiles tree maxFiles maxBytes candidates = Inr picked'"
  show "total_bytes tree picked' < maxBytes"
  proof (cases "picked' = []")
    case True
    with h show ?thesis by (simp add: total_bytes_def)
  next
    case False
    with h pickedFiles_inv(4) show ?thesis by blast
  qed
qed

text \<open>
  C10 as stated fails at a budget of zero: nothing is admitted, and the byte total, zero,
  equals the budget.
\<close>

theorem zero_budget_total_equals_budget:
  "pickedFiles demo_tree 25 0 [''bb.js'', ''a.js''] = Inr []
   \<and> \<not> total_bytes demo_tree [] < (0::nat)
   \<and> total_bytes demo_tree [] = (0::nat)"
  by (simp add: pickedFiles_def demo_tree_def total_bytes_def)

theorem budget_admission_strict_witness:
  "demo_tree ''a.js'' = Some \<lparr>fsize = 200, content = ''let a;''\<rparr>
   \<and> int (fsize \<lparr>fsize = 200, content = ''let a;''\<rparr>) = 200
   \<and> sample_loop demo_tree 25 [] 200 [''a.js'', ''bb.js'']
        = sample_loop demo_tree 25 [] 200 [''bb.js'']
   \<and> (0::nat) < 200
   \<and> pickedFiles demo_tree 25 200 [''bb.js'', ''a.js''] = Inr [''bb.js'']
   \<and> total_bytes demo_tree [''bb.js''] < 200"
proof -
  have h1: "demo_tree ''a.js'' = Some \<lparr>fsize = 200, content = ''let a;''\<rparr>"
    by (simp add: demo_tree_def)
  have h2: "int (fsize \<lparr>fsize = 200, content = ''let a;''\<rparr>) = 200" by simp
  have h3: "(0::nat) < 200" by simp
  have h4: "pickedFiles demo_tree 25 200 [''bb.js'', ''a.js''] = Inr [''bb.js'']"
    by (simp add: pickedFiles_def demo_tree_def)
  from budget_admission_strict
    [of demo_tree "''a.js''" "\<lparr>fsize = 200, content = ''let a;''\<rparr>" 200 25 "[]" "[''bb.js'']"
        200 "[''bb.js'', ''a.js'']" "[''bb.js'']"]
    h1 h2 h3 h4
  show ?thesis by blast
qed

subsection \<open>Determinism\<close>

lemma sample_loop_cong:
  "\<forall>f \<in> set fs. tree1 f = tree2 f \<Longrightarrow>
     sample_loop tree1 maxFiles picked budget fs = sample_loop tree2 maxFiles picked budget fs"
  by (induction fs arbitrary: picked budget) (simp_all split: option.splits)

lemma readParts_cong:
  "\<forall>f \<in> set fs. tree1 f = tree2 f \<Longrightarrow> readParts tree1 fs = readParts tree2 fs"
  by (induction fs) (simp_all split: option.splits sum.splits)

lemma pickedFiles_cong:
  assumes "\<forall>f \<in> set candidates. tree1 f = tree2 f"
  shows "pickedFiles tree1 maxFiles maxBytes candidates
           = pickedFiles tree2 maxFiles maxBytes candidates"
proof -
  from assms have "\<forall>f \<in> set (sort_key length candidates). tree1 f = tree2 f" by simp
  from sample_loop_cong [OF this] show ?thesis by (simp add: pickedFiles_def)
qed

lemma pickedFiles_subset:
  assumes "pickedFiles tree maxFiles maxBytes candidates = Inr picked"
  shows "set picked \<subseteq> set candidates"
proof -
  from pickedFiles_inv(1) [OF assms] have "set picked \<subseteq> set (sort_key length candidates)"
    by (induction rule: list_emb.induct) auto
  then show ?thesis by simp
qed

text \<open>Candidates of equal path length keep their discovery order.\<close>

lemma sorted_candidates_stable:
  "filter (\<lambda>f. length f = k) (sort_key length candidates)
     = filter (\<lambda>f. length f = k) candidates"
  by (rule sort_key_stable)

lemma sorted_candidates_sorted: "sorted (map length (sort_key length candidates))"
  by simp

text \<open>
  C7. The bundle is determined by the configuration, the candidate list in its discovery
  order, and the sizes and contents of the candidate files: two runs that agree on these
  return the same string (or fail alike), whatever else differs between their trees.
\<close>

theorem sampling_deterministic:
  assumes "\<forall>f \<in> set candidates. tree1 f = tree2 f"
  shows "sampleRepoContext tree1 maxFiles maxBytes candidates
           = sampleRepoContext tree2 maxFiles maxBytes candidates"
proof (cases "pickedFiles tree1 maxFiles maxBytes candidates")
  case (Inl e)
  moreover from Inl pickedFiles_cong [OF assms, of maxFiles maxBytes]
  have "pickedFiles tree2 maxFiles maxBytes candidates = Inl e" by simp
  ultimately show ?thesis by (simp add: sampleRepoContext_def)
next
  case (Inr picked)
  from pickedFiles_subset [OF Inr] assms have "\<forall>f \<in> set picked. tree1 f = tree2 f"
    by blast
  then have "readParts tree1 picked = readParts tree2 picked" by (rule readParts_cong)
  moreover from Inr pickedFiles_cong [OF assms, of maxFiles maxBytes]
  have "pickedFiles tree2 maxFiles maxBytes candidates = Inr picked" by simp
  ultimately show ?thesis using Inr by (simp add: sampleRepoContext_def)
qed

theorem sampling_deterministic_witness:
  "demo_tree ''bb.js'' = demo_tree2 ''bb.js''
   \<and> demo_tree ''a.js'' = demo_tree2 ''a.js''
   \<and> demo_tree ''zz.py'' \<noteq> demo_tree2 ''zz.py''
   \<and> sampleRepoContext demo_tree 25 40000 [''bb.js'', ''a.js'']
        = sampleRepoContext demo_tree2 25 40000 [''bb.js'', ''a.js'']
   \<and> sampleRepoContext demo_tree 25 40000 [''bb.js'', ''a.js'']
        = Inr (''FILE: a.js'' @ [CHR 0x0A] @ ''let a;'' @ END_FILE
               @ ''FILE: bb.js'' @ [CHR 0x0A] @ ''let b;'')"
proof -
  have h1: "demo_tree ''bb.js'' = demo_tree2 ''bb.js''"
    and h2: "demo_tree ''a.js'' = demo_tree2 ''a.js''"
    and h3: "demo_tree ''zz.py'' \<noteq> demo_tree2 ''zz.py''"
    by (simp_all add: demo_tree2_def demo_tree_def)
  from h1 h2 have h: "\<forall>f \<in> set [''bb.js'', ''a.js'']. demo_tree f = demo_tree2 f"
    by simp
  have v: "sampleRepoContext demo_tree 25 40000 [''bb.js'', ''a.js'']
        = Inr (''FILE: a.js'' @ [CHR 0x0A] @ ''let a;'' @ END_FILE
               @ ''FILE: bb.js'' @ [CHR 0x0A] @ ''let b;'')"
    by (simp add: sampleRepoContext_def pickedFiles_def demo_tree_def)
  from sampling_deterministic [OF h, of 25 40000] h1 h2 h3 v show ?thesis by blast
qed

section \<open>Properties of the run\<close>

subsection \<open>Sequencing\<close>

lemma bind_io_Inl: "bind_io (es, Inl e) k = (es, Inl e)"
  by (simp add: bind_io_def)

lemma bind_io_Inr: "bind_io (es, Inr a) k = (es @ fst (k a), snd (k a))"
  by (simp add: bind_io_def split: prod.splits)

lemma bind_io_assoc: "bind_io (bind_io m f) g = bind_io m (\<lambda>x. bind_io (f x) g)"
proof (cases m)
  case (Pair es r)
  show ?thesis
  proof (cases r)
    case (Inl e)
    with Pair show ?thesis by (simp add: bind_io_Inl)
  next
    case (Inr a)
    obtain es1 r1 where f: "f a = (es1, r1)" by (cases "f a")
    show ?thesis
    proof (cases r1)
      case (Inl e)
      with Pair Inr f show ?thesis by (simp add: bind_io_Inr bind_io_Inl)
    next
      case (Inr b)
      with Pair \<open>r = Inr a\<close> f show ?thesis by (simp add: bind_io_Inr)
    qed
  qed
qed

lemma bind_io_step:
  "bind_io (step e ok err) k = (if ok then (e # fst (k ()), snd (k ())) else ([e], Inl err))"
  by (simp add: step_def bind_io_Inl bind_io_Inr)

lemma askForPatch_eq:
  "askForPatch w c t n x =
     ([AskForPatch x (patch_request w c t x)],
      case completion w n (patch_request w c t x) of
        None \<Rightarrow> Inl ModelError
      | Some raw \<Rightarrow> Inr (trim raw))"
  by (simp add: askForPatch_def Let_def)

subsection \<open>The two attempts\<close>

lemma applyOrRetry_retry:
  "applyOrRetry w c t p True =
     ([GitApply p (git_apply w 1 p)], if git_apply w 1 p then Inr p else Inl PatchFailedTwice)"
  by (simp add: applyOrRetry.simps)

lemma applyOrRetry_first:
  "applyOrRetry w c t p False =
     (if git_apply w 0 p then ([GitApply p True], Inr p)
      else case completion w 1 (patch_request w c t RETRY_INSTRUCTION) of
        None \<Rightarrow>
          ([GitApply p False, Console PatchFailedNotice,
            AskForPatch RETRY_INSTRUCTION (patch_request w c t RETRY_INSTRUCTION)],
           Inl ModelError)
      | Some raw \<Rightarrow>
          ([GitApply p False, Console PatchFailedNotice,
            AskForPatch RETRY_INSTRUCTION (patch_request w c t RETRY_INSTRUCTION),
            GitApply (trim raw) (git_apply w 1 (trim raw))],
           if git_apply w 1 (trim raw) then Inr (trim raw) else Inl PatchFailedTwice))"
  by (subst applyOrRetry.simps)
     (simp add: askForPatch_eq bind_io_Inl bind_io_Inr applyOrRetry_retry split: option.splits)

lemma RETRY_nonempty: "RETRY_INSTRUCTION \<noteq> []"
  by (simp add: RETRY_INSTRUCTION_def)

subsection \<open>The shape of a run\<close>

lemma main_phases:
  "main w =
     (if join '' '' (argv w) = [] then ([Console Usage], Inl UsageError)
      else
        bind_io (setup_steps w) (\<lambda>contextBlob.
        bind_io (askForPatch w contextBlob (join '' '' (argv w)) 0 []) (\<lambda>diff.
          if diff = ''__NO_CHANGES__'' then ([Console NoEditsNeeded], Inr NoChanges)
          else bind_io (applyOrRetry w contextBlob (join '' '' (argv w)) diff False) (\<lambda>diff.
               publish_steps w))))"
  unfolding main_def Let_def setup_steps_def publish_steps_def the_pull_request_def
    bind_io_assoc
  by (rule refl)

lemma setup_steps_events:
  "filter is_apply (fst (setup_steps w)) = []"
  "filter is_failed_apply (fst (setup_steps w)) = []"
  "filter is_rerequest (fst (setup_steps w)) = []"
  "filter is_publication (fst (setup_steps w)) = []"
  "filter is_pulls_create (fst (setup_steps w)) = []"
  by (simp_all add: setup_steps_def bind_io_step bind_io_Inl bind_io_Inr)

lemma publish_steps_events:
  "filter is_apply (fst (publish_steps w)) = []"
  "filter is_failed_apply (fst (publish_steps w)) = []"
  "filter is_rerequest (fst (publish_steps w)) = []"
  by (simp_all add: publish_steps_def bind_io_step)

lemma publish_steps_result:
  "snd (publish_steps w) \<noteq> Inl PatchFailedTwice"
  "snd (publish_steps w) \<noteq> Inr NoChanges"
  "snd (publish_steps w) = Inr Published \<Longrightarrow>
     filter is_pulls_create (fst (publish_steps w)) = [PullsCreate (the_pull_request w)]"
  by (simp_all add: publish_steps_def bind_io_step split: if_splits)

lemma setup_steps_ok:
  "mkdtemp_ok w \<Longrightarrow> clone_ok w \<Longrightarrow> checkout_ok w \<Longrightarrow>
     snd (setup_steps w) = sampleRepoContext (work_tree w) 25 40000 (globby w)"
  by (simp add: setup_steps_def bind_io_step)

lemma main_cases [case_names usage setup_failed model_failed no_changes not_applied applied]:
  obtains
    "join '' '' (argv w) = []" "main w = ([Console Usage], Inl UsageError)"
  | e where "join '' '' (argv w) \<noteq> []" "snd (setup_steps w) = Inl e"
      "main w = (fst (setup_steps w), Inl e)"
  | ctx where "join '' '' (argv w) \<noteq> []" "snd (setup_steps w) = Inr ctx"
      "completion w 0 (patch_request w ctx (join '' '' (argv w)) []) = None"
      "main w = (fst (setup_steps w)
                   @ [AskForPatch [] (patch_request w ctx (join '' '' (argv w)) [])],
                 Inl ModelError)"
  | ctx raw where "join '' '' (argv w) \<noteq> []" "snd (setup_steps w) = Inr ctx"
      "completion w 0 (patch_request w ctx (join '' '' (argv w)) []) = Some raw"
      "trim raw = ''__NO_CHANGES__''"
      "main w = (fst (setup_steps w)
                   @ [AskForPatch [] (patch_request w ctx (join '' '' (argv w)) []),
                      Console NoEditsNeeded],
                 Inr NoChanges)"
  | ctx raw e where "join '' '' (argv w) \<noteq> []" "snd (setup_steps w) = Inr ctx"
      "completion w 0 (patch_request w ctx (join '' '' (argv w)) []) = Some raw"
      "trim raw \<noteq> ''__NO_CHANGES__''"
      "snd (applyOrRetry w ctx (join '' '' (argv w)) (trim raw) False) = Inl e"
      "main w = (fst (setup_steps w)
                   @ AskForPatch [] (patch_request w ctx (join '' '' (argv w)) [])
                   # fst (applyOrRetry w ctx (join '' '' (argv w)) (trim raw) False),
                 Inl e)"
  | ctx raw d where "join '' '' (argv w) \<noteq> []" "snd (setup_steps w) = Inr ctx"
      "completion w 0 (patch_request w ctx (join '' '' (argv w)) []) = Some raw"
      "trim raw \<noteq> ''__NO_CHANGES__''"
      "snd (applyOrRetry w ctx (join '' '' (argv w)) (trim raw) False) = Inr d"
      "main w = (fst (setup_steps w)
                   @ AskForPatch [] (patch_request w ctx (join '' '' (argv w)) [])
                   # fst (applyOrRetry w ctx (join '' '' (argv w)) (trim raw) False)
                   @ fst (publish_steps w),
                 snd (publish_steps w))"
proof (cases "join '' '' (argv w) = []")
  case True
  then have "main w = ([Console Usage], Inl UsageError)" by (simp add: main_phases)
  with True show ?thesis by (rule that(1))
next
  case task: False
  obtain es r where su: "setup_steps w = (es, r)" by (cases "setup_steps w")
  show ?thesis
  proof (cases r)
    case (Inl e)
    with task su have "main w = (fst (setup_steps w), Inl e)"
      by (simp add: main_phases bind_io_Inl)
    with task su Inl show ?thesis by (intro that(2) [of e]) simp_all
  next
    case (Inr ctx)
    let ?req = "patch_request w ctx (join '' '' (argv w)) []"
    show ?thesis
    proof (cases "completion w 0 ?req")
      case None
      with task su Inr have "main w = (fst (setup_steps w) @ [AskForPatch [] ?req], Inl ModelError)"
        by (simp add: main_phases bind_io_Inr bind_io_Inl askForPatch_eq)
      with task su Inr None show ?thesis by (intro that(3) [of ctx]) simp_all
    next
      case (Some raw)
      show ?thesis
      proof (cases "trim raw = ''__NO_CHANGES__''")
        case True
        with task su Inr Some
        have "main w = (fst (setup_steps w) @ [AskForPatch [] ?req, Console NoEditsNeeded],
                        Inr NoChanges)"
          by (simp add: main_phases bind_io_Inr askForPatch_eq)
        with task su Inr Some True show ?thesis by (intro that(4) [of ctx raw]) simp_all
      next
        case False
        let ?ap = "applyOrRetry w ctx (join '' '' (argv w)) (trim raw) False"
        obtain es2 r2 where ap: "?ap = (es2, r2)" by (cases ?ap)
        show ?thesis
        proof (cases r2)
          case (Inl e)
          with task su Inr Some False ap
          have "main w = (fst (setup_steps w) @ AskForPatch [] ?req # fst ?ap, Inl e)"
            by (simp add: main_phases bind_io_Inr bind_io_Inl askForPatch_eq)
          with task su \<open>r = Inr ctx\<close> Some False ap Inl show ?thesis
            by (intro that(5) [of ctx raw e]) simp_all
        next
          case r2: (Inr d)
          with task su Inr Some False ap
          have "main w = (fst (setup_steps w) @ AskForPatch [] ?req # fst ?ap
                            @ fst (publish_steps w), snd (publish_steps w))"
            by (simp add: main_phases bind_io_Inr askForPatch_eq)
          with task su Inr Some False ap r2 show ?thesis
            by (intro that(6) [of ctx raw d]) simp_all
        qed
      qed
    qed
  qed
qed

lemma main_reaches_apply:
  assumes "join '' '' (argv w) \<noteq> []"
    and "snd (setup_steps w) = Inr ctx"
    and "completion w 0 (patch_request w ctx (join '' '' (argv w)) []) = Some raw"
    and "trim raw \<noteq> ''__NO_CHANGES__''"
  shows "fst (main w) =
           fst (setup_steps w)
           @ AskForPatch [] (patch_request w ctx (join '' '' (argv w)) [])
           # fst (applyOrRetry w ctx (join '' '' (argv w)) (trim raw) False)
           @ (case snd (applyOrRetry w ctx (join '' '' (argv w)) (trim raw) False) of
                Inl e \<Rightarrow> [] | Inr d \<Rightarrow> fst (publish_steps w))"
    and "snd (main w) =
           (case snd (applyOrRetry w ctx (join '' '' (argv w)) (trim raw) False) of
              Inl e \<Rightarrow> Inl e | Inr d \<Rightarrow> snd (publish_steps w))"
proof -
  obtain es where su: "setup_steps w = (es, Inr ctx)"
    using assms(2) by (cases "setup_steps w") simp
  obtain es2 r2 where ap:
    "applyOrRetry w ctx (join '' '' (argv w)) (trim raw) False = (es2, r2)"
    by (cases "applyOrRetry w ctx (join '' '' (argv w)) (trim raw) False")
  have "main w =
          (es @ AskForPatch [] (patch_request w ctx (join '' '' (argv w)) []) # es2
              @ (case r2 of Inl e \<Rightarrow> [] | Inr d \<Rightarrow> fst (publish_steps w)),
           case r2 of Inl e \<Rightarrow> Inl e | Inr d \<Rightarrow> snd (publish_steps w))"
    using assms(1,3,4) su ap
    by (cases r2) (simp_all add: main_phases bind_io_Inr bind_io_Inl askForPatch_eq)
  then show
    "fst (main w) =
           fst (setup_steps w)
           @ AskForPatch [] (patch_request w ctx (join '' '' (argv w)) [])
           # fst (applyOrRetry w ctx (join '' '' (argv w)) (trim raw) False)
           @ (case snd (applyOrRetry w ctx (join '' '' (argv w)) (trim raw) False) of
                Inl e \<Rightarrow> [] | Inr d \<Rightarrow> fst (publish_steps w))"
    "snd (main w) =
           (case snd (applyOrRetry w ctx (join '' '' (argv w)) (trim raw) False) of
              Inl e \<Rightarrow> Inl e | Inr d \<Rightarrow> snd (publish_steps w))"
    using su ap by simp_all
qed

lemma main_no_changes:
  assumes "join '' '' (argv w) \<noteq> []"
    and "snd (setup_steps w) = Inr ctx"
    and "completion w 0 (patch_request w ctx (join '' '' (argv w)) []) = Some raw"
    and "trim raw = ''__NO_CHANGES__''"
  shows "main w =
           (fst (setup_steps w)
              @ [AskForPatch [] (patch_request w ctx (join '' '' (argv w)) []),
                 Console NoEditsNeeded],
            Inr NoChanges)"
proof -
  obtain es where su: "setup_steps w = (es, Inr ctx)"
    using assms(2) by (cases "setup_steps w") simp
  show ?thesis
    using assms(1,3,4) su by (simp add: main_phases bind_io_Inr askForPatch_eq)
qed

lemma applyOrRetry_events:
  "length (filter is_apply (fst (applyOrRetry w c t p False))) \<le> 2"
  "length (filter is_rerequest (fst (applyOrRetry w c t p False))) \<le> Suc 0"
  "filter is_publication (fst (applyOrRetry w c t p False)) = []"
  "filter is_pulls_create (fst (applyOrRetry w c t p False)) = []"
  "take 1 (filter is_apply (fst (applyOrRetry w c t p False))) = [GitApply p (git_apply w 0 p)]"
  by (simp_all add: applyOrRetry_first RETRY_nonempty split: option.splits)


lemma applyOrRetry_sentinel_retry:
  assumes "\<not> git_apply w 0 p"
    and "completion w 1 (patch_request w c t RETRY_INSTRUCTION) = Some raw2"
    and "trim raw2 = ''__NO_CHANGES__''"
  shows "applyOrRetry w c t p False =
           ([GitApply p False, Console PatchFailedNotice,
             AskForPatch RETRY_INSTRUCTION (patch_request w c t RETRY_INSTRUCTION),
             GitApply ''__NO_CHANGES__'' (git_apply w 1 ''__NO_CHANGES__'')],
            if git_apply w 1 ''__NO_CHANGES__'' then Inr ''__NO_CHANGES__''
            else Inl PatchFailedTwice)"
  using assms by (simp add: applyOrRetry_first)

text \<open>
  C2. In every run, whatever the model answers and whatever \<open>git apply\<close> says, at most two
  apply attempts are made, and at most one corrective re-request is sent to the model.
\<close>

theorem apply_attempts_bounded:
  "length (filter is_apply (fst (main w))) \<le> 2
   \<and> length (filter is_rerequest (fst (main w))) \<le> 1"
proof (cases w rule: main_cases)
  case usage
  then show ?thesis by simp
next
  case (setup_failed e)
  then show ?thesis by (simp add: setup_steps_events)
next
  case (model_failed ctx)
  then show ?thesis by (simp add: setup_steps_events)
next
  case (no_changes ctx raw)
  then show ?thesis by (simp add: setup_steps_events)
next
  case (not_applied ctx raw e)
  then show ?thesis by (simp add: setup_steps_events applyOrRetry_events)
next
  case (applied ctx raw d)
  then show ?thesis
    by (simp add: setup_steps_events applyOrRetry_events publish_steps_events)
qed


text \<open>
  C4. Take a run that reaches the first model response \<open>raw\<close>. If the trimmed response is
  exactly \<open>__NO_CHANGES__\<close>, the run ends as a no-op and no apply attempt is made. If it is
  anything else (the sentinel with other text around it included), the run is not a
  no-op and its first apply attempt feeds the trimmed response to \<open>git apply\<close>.
\<close>

theorem only_exact_sentinel_short_circuits:
  assumes "join '' '' (argv w) \<noteq> []" "mkdtemp_ok w" "clone_ok w" "checkout_ok w"
    and "sampleRepoContext (work_tree w) 25 40000 (globby w) = Inr ctx"
    and "completion w 0 (patch_request w ctx (join '' '' (argv w)) []) = Some raw"
  shows "(trim raw = ''__NO_CHANGES__'' \<longrightarrow>
            snd (main w) = Inr NoChanges \<and> filter is_apply (fst (main w)) = [])
       \<and> (trim raw \<noteq> ''__NO_CHANGES__'' \<longrightarrow>
            snd (main w) \<noteq> Inr NoChanges
            \<and> take 1 (filter is_apply (fst (main w)))
                = [GitApply (trim raw) (git_apply w 0 (trim raw))])"
proof -
  from assms(2-5) have su: "snd (setup_steps w) = Inr ctx" by (simp add: setup_steps_ok)
  show ?thesis
  proof (cases w rule: main_cases)
    case usage
    with assms(1) show ?thesis by simp
  next
    case (setup_failed e)
    with su show ?thesis by simp
  next
    case (model_failed ctx')
    with su assms(6) show ?thesis by simp
  next
    case (no_changes ctx' raw')
    with su assms(6) show ?thesis by (simp add: setup_steps_events)
  next
    case (not_applied ctx' raw' e)
    with su assms(6) have eq: "ctx' = ctx" "raw' = raw" by simp_all
    from not_applied(4,6) applyOrRetry_events(5) [of w ctx "join '' '' (argv w)" "trim raw"]
    show ?thesis
      unfolding eq by (simp add: setup_steps_events)
  next
    case (applied ctx' raw' d)
    with su assms(6) have eq: "ctx' = ctx" "raw' = raw" by simp_all
    from applied(4,6) applyOrRetry_events(5) [of w ctx "join '' '' (argv w)" "trim raw"]
    show ?thesis
      unfolding eq
      by (simp add: setup_steps_events publish_steps_events publish_steps_result)
  qed
qed

text \<open>
  C6, as the code has it. A run that ends with a pull request opened exactly one; its
  base is the branch name \<open>main\<close>, written in the code, its head is the run's branch, and
  its title and body are built from the task text.
\<close>

theorem one_pull_request_to_main:
  assumes "snd (main w) = Inr Published"
  shows "filter is_pulls_create (fst (main w)) = [PullsCreate (the_pull_request w)]
       \<and> pr_base (the_pull_request w) = ''main''
       \<and> pr_head (the_pull_request w) = ''ai-task-'' @ now w
       \<and> pr_title (the_pull_request w) = ''AI: '' @ join '' '' (argv w)
       \<and> pr_body (the_pull_request w) =
           ''Automated patch generated by OpenAI'' @ [CHR 0x0A, CHR 0x0A]
             @ ''Task:'' @ [CHR 0x0A] @ join '' '' (argv w)"
proof (cases w rule: main_cases)
  case usage
  with assms show ?thesis by simp
next
  case (setup_failed e)
  with assms show ?thesis by simp
next
  case (model_failed ctx)
  with assms show ?thesis by simp
next
  case (no_changes ctx raw)
  with assms show ?thesis by simp
next
  case (not_applied ctx raw e)
  with assms show ?thesis by simp
next
  case (applied ctx raw d)
  with assms have "snd (publish_steps w) = Inr Published" by simp
  from publish_steps_result(3) [OF this] applied(6) show ?thesis
    by (simp add: setup_steps_events applyOrRetry_events the_pull_request_def)
qed

text \<open>
  C9. When the first patch is rejected and the retry's answer is exactly the sentinel,
  the sentinel text is what the second apply attempt feeds to \<open>git apply\<close>; the run is
  not a no-op, and if \<open>git apply\<close> rejects that text the run ends with the fatal error and
  publishes nothing.
\<close>

theorem retry_sentinel_is_applied:
  assumes "join '' '' (argv w) \<noteq> []" "mkdtemp_ok w" "clone_ok w" "checkout_ok w"
    and "sampleRepoContext (work_tree w) 25 40000 (globby w) = Inr ctx"
    and "completion w 0 (patch_request w ctx (join '' '' (argv w)) []) = Some raw"
    and "trim raw \<noteq> ''__NO_CHANGES__''"
    and "\<not> git_apply w 0 (trim raw)"
    and "completion w 1 (patch_request w ctx (join '' '' (argv w)) RETRY_INSTRUCTION) = Some raw2"
    and "trim raw2 = ''__NO_CHANGES__''"
  shows "filter is_apply (fst (main w))
           = [GitApply (trim raw) False,
              GitApply ''__NO_CHANGES__'' (git_apply w 1 ''__NO_CHANGES__'')]
       \<and> snd (main w) \<noteq> Inr NoChanges
       \<and> (\<not> git_apply w 1 ''__NO_CHANGES__'' \<longrightarrow>
            snd (main w) = Inl PatchFailedTwice \<and> filter is_publication (fst (main w)) = [])"
proof -
  from assms(2-5) have su: "snd (setup_steps w) = Inr ctx" by (simp add: setup_steps_ok)
  note ap = applyOrRetry_sentinel_retry [OF assms(8,9,10)]
  show ?thesis
  proof (cases w rule: main_cases)
    case usage
    with assms(1) show ?thesis by simp
  next
    case (setup_failed e)
    with su show ?thesis by simp
  next
    case (model_failed ctx')
    with su assms(6) show ?thesis by simp
  next
    case (no_changes ctx' raw')
    with su assms(6,7) show ?thesis by simp
  next
    case (not_applied ctx' raw' e)
    with su assms(6) have eq: "ctx' = ctx" "raw' = raw" by simp_all
    from not_applied(5,6) show ?thesis
      unfolding eq ap by (simp add: setup_steps_events split: if_splits)
  next
    case (applied ctx' raw' d)
    with su assms(6) have eq: "ctx' = ctx" "raw' = raw" by simp_all
    from applied(5,6) show ?thesis
      unfolding eq ap
      by (simp add: setup_steps_events publish_steps_events publish_steps_result
            split: if_splits)
  qed
qed

subsection \<open>Concrete runs\<close>

lemma demo_world_fields:
  "join '' '' (argv (demo_world rs ac)) = ''add LICENSE''"
  "mkdtemp_ok (demo_world rs ac)" "clone_ok (demo_world rs ac)" "checkout_ok (demo_world rs ac)"
  "commit_ok (demo_world rs ac)" "push_ok (demo_world rs ac)" "create_pr_ok (demo_world rs ac)"
  "work_tree (demo_world rs ac) = demo_tree" "globby (demo_world rs ac) = [''bb.js'', ''a.js'']"
  "now (demo_world rs ac) = ''1700000000000''"
  "default_branch (demo_world rs ac) = ''master''"
  "completion (demo_world rs ac) n req = (if n < length rs then Some (rs ! n) else None)"
  "git_apply (demo_world rs ac) n p = (n < length ac \<and> ac ! n)"
  by (simp_all add: demo_world_def)

lemma demo_sample:
  "sampleRepoContext demo_tree 25 40000 [''bb.js'', ''a.js''] = Inr demo_context"
  by (simp add: sampleRepoContext_def pickedFiles_def demo_tree_def demo_context_def)

lemma demo_setup: "snd (setup_steps (demo_world rs ac)) = Inr demo_context"
  by (simp add: setup_steps_ok demo_world_fields demo_sample)

lemma trim_examples:
  "trim '' not a diff '' = ''not a diff''"
  "trim ''still not a diff'' = ''still not a diff''"
  "trim ''  __NO_CHANGES__ '' = ''__NO_CHANGES__''"
  "trim ''__NO_CHANGES__ (nothing to do)'' = ''__NO_CHANGES__ (nothing to do)''"
  "trim ''diff --git a/LICENSE b/LICENSE'' = ''diff --git a/LICENSE b/LICENSE''"
  by (simp_all add: trim_def is_ws_def)

lemma twice_rejected_run:
  "filter is_apply (fst (main twice_rejected))
     = [GitApply ''not a diff'' False, GitApply ''still not a diff'' False]"
  "filter is_failed_apply (fst (main twice_rejected))
     = [GitApply ''not a diff'' False, GitApply ''still not a diff'' False]"
  "snd (main twice_rejected) = Inl PatchFailedTwice"
proof -
  have task: "join '' '' (argv twice_rejected) \<noteq> []"
    and su: "snd (setup_steps twice_rejected) = Inr demo_context"
    by (simp_all add: twice_rejected_def demo_world_fields demo_setup)
  have c0: "completion twice_rejected 0 req = Some '' not a diff ''"
    and c1: "completion twice_rejected (Suc 0) req = Some ''still not a diff''"
    and g: "\<not> git_apply twice_rejected n p" for req n p
    by (simp_all add: twice_rejected_def demo_world_fields nth_Cons')
  have ap: "applyOrRetry twice_rejected c t ''not a diff'' False
          = ([GitApply ''not a diff'' False, Console PatchFailedNotice,
              AskForPatch RETRY_INSTRUCTION (patch_request twice_rejected c t RETRY_INSTRUCTION),
              GitApply ''still not a diff'' False], Inl PatchFailedTwice)" for c t
    by (simp add: applyOrRetry_first c1 g trim_examples)
  have t: "trim '' not a diff '' \<noteq> ''__NO_CHANGES__''"
    by (simp add: trim_examples)
  note run = main_reaches_apply [OF task su c0 t]
  show "filter is_apply (fst (main twice_rejected))
     = [GitApply ''not a diff'' False, GitApply ''still not a diff'' False]"
    by (simp add: run trim_examples ap setup_steps_events)
  show "filter is_failed_apply (fst (main twice_rejected))
     = [GitApply ''not a diff'' False, GitApply ''still not a diff'' False]"
    by (simp add: run trim_examples ap setup_steps_events)
  show "snd (main twice_rejected) = Inl PatchFailedTwice"
    by (simp add: run trim_examples ap)
qed


theorem apply_attempts_bounded_witness:
  "length (filter is_apply (fst (main twice_rejected))) = 2
   \<and> length (filter is_apply (fst (main twice_rejected))) \<le> 2
   \<and> length (filter is_rerequest (fst (main twice_rejected))) \<le> 1"
  using apply_attempts_bounded [of twice_rejected] twice_rejected_run(1) by simp


lemma accepted_first_run: "snd (main accepted_first) = Inr Published"
proof -
  have task: "join '' '' (argv accepted_first) \<noteq> []"
    and su: "snd (setup_steps accepted_first) = Inr demo_context"
    by (simp_all add: accepted_first_def demo_world_fields demo_setup)
  have c0: "completion accepted_first 0 req = Some ''diff --git a/LICENSE b/LICENSE''"
    and g: "git_apply accepted_first 0 p" for req p
    by (simp_all add: accepted_first_def demo_world_fields)
  have t: "trim ''diff --git a/LICENSE b/LICENSE'' \<noteq> ''__NO_CHANGES__''"
    by (simp add: trim_examples)
  have pub: "snd (publish_steps accepted_first) = Inr Published"
    by (simp add: publish_steps_def bind_io_step accepted_first_def demo_world_fields)
  show ?thesis
    by (simp add: main_reaches_apply(2) [OF task su c0 t] applyOrRetry_first g pub)
qed

text \<open>
  C6 as stated fails: for a repository whose default branch is \<open>master\<close>, the successful
  run opens its one pull request against \<open>main\<close>, which is not the default branch.
\<close>

theorem pull_request_base_is_not_default_branch:
  "snd (main accepted_first) = Inr Published
   \<and> filter is_pulls_create (fst (main accepted_first))
       = [PullsCreate (the_pull_request accepted_first)]
   \<and> pr_base (the_pull_request accepted_first) = ''main''
   \<and> default_branch accepted_first = ''master''
   \<and> pr_base (the_pull_request accepted_first) \<noteq> default_branch accepted_first"
proof -
  have task: "join '' '' (argv accepted_first) \<noteq> []"
    and su: "snd (setup_steps accepted_first) = Inr demo_context"
    by (simp_all add: accepted_first_def demo_world_fields demo_setup)
  have c0: "completion accepted_first 0 req = Some ''diff --git a/LICENSE b/LICENSE''"
    and g: "git_apply accepted_first 0 p" for req p
    by (simp_all add: accepted_first_def demo_world_fields)
  have t: "trim ''diff --git a/LICENSE b/LICENSE'' \<noteq> ''__NO_CHANGES__''"
    by (simp add: trim_examples)
  have "filter is_pulls_create (fst (publish_steps accepted_first))
          = [PullsCreate (the_pull_request accepted_first)]"
    by (simp add: publish_steps_def bind_io_step accepted_first_def demo_world_fields)
  then have "filter is_pulls_create (fst (main accepted_first))
          = [PullsCreate (the_pull_request accepted_first)]"
    by (simp add: main_reaches_apply(1) [OF task su c0 t] applyOrRetry_first g
          setup_steps_events)
  moreover have "pr_base (the_pull_request accepted_first) = ''main''"
    by (simp add: the_pull_request_def)
  moreover have "default_branch accepted_first = ''master''"
    by (simp add: accepted_first_def demo_world_fields)
  ultimately show ?thesis using accepted_first_run by simp
qed

theorem one_pull_request_to_main_witness:
  "snd (main accepted_first) = Inr Published
   \<and> filter is_pulls_create (fst (main accepted_first))
       = [PullsCreate (the_pull_request accepted_first)]
   \<and> pr_base (the_pull_request accepted_first) = ''main''
   \<and> pr_head (the_pull_request accepted_first) = ''ai-task-1700000000000''
   \<and> pr_title (the_pull_request accepted_first) = ''AI: add LICENSE''"
  using one_pull_request_to_main [OF accepted_first_run] accepted_first_run
  by (simp add: accepted_first_def demo_world_fields)

theorem only_exact_sentinel_short_circuits_witness:
  "trim ''  __NO_CHANGES__ '' = ''__NO_CHANGES__''
   \<and> snd (main padded_sentinel) = Inr NoChanges
   \<and> filter is_apply (fst (main padded_sentinel)) = []
   \<and> trim ''__NO_CHANGES__ (nothing to do)'' \<noteq> ''__NO_CHANGES__''
   \<and> snd (main chatty_sentinel) \<noteq> Inr NoChanges
   \<and> take 1 (filter is_apply (fst (main chatty_sentinel)))
       = [GitApply ''__NO_CHANGES__ (nothing to do)'' False]"
proof -
  have p: "join '' '' (argv padded_sentinel) \<noteq> []" "mkdtemp_ok padded_sentinel"
    "clone_ok padded_sentinel" "checkout_ok padded_sentinel"
    "sampleRepoContext (work_tree padded_sentinel) 25 40000 (globby padded_sentinel)
       = Inr demo_context"
    "completion padded_sentinel 0
       (patch_request padded_sentinel demo_context (join '' '' (argv padded_sentinel)) [])
       = Some ''  __NO_CHANGES__ ''"
    by (simp_all add: padded_sentinel_def demo_world_fields demo_sample)
  have c: "join '' '' (argv chatty_sentinel) \<noteq> []" "mkdtemp_ok chatty_sentinel"
    "clone_ok chatty_sentinel" "checkout_ok chatty_sentinel"
    "sampleRepoContext (work_tree chatty_sentinel) 25 40000 (globby chatty_sentinel)
       = Inr demo_context"
    "completion chatty_sentinel 0
       (patch_request chatty_sentinel demo_context (join '' '' (argv chatty_sentinel)) [])
       = Some ''__NO_CHANGES__ (nothing to do)''"
    by (simp_all add: chatty_sentinel_def demo_world_fields demo_sample)
  have g: "\<not> git_apply chatty_sentinel 0 ''__NO_CHANGES__ (nothing to do)''"
    by (simp add: chatty_sentinel_def demo_world_fields)
  have t1: "trim ''  __NO_CHANGES__ '' = ''__NO_CHANGES__''"
    and t2: "trim ''__NO_CHANGES__ (nothing to do)'' = ''__NO_CHANGES__ (nothing to do)''"
    by (simp_all add: trim_examples)
  from only_exact_sentinel_short_circuits [OF p] only_exact_sentinel_short_circuits [OF c]
  show ?thesis unfolding t1 t2 using g by simp
qed

theorem retry_sentinel_is_applied_witness:
  "trim '' not a diff '' \<noteq> ''__NO_CHANGES__''
   \<and> \<not> git_apply sentinel_on_retry 0 (trim '' not a diff '')
   \<and> trim ''__NO_CHANGES__'' = ''__NO_CHANGES__''
   \<and> \<not> git_apply sentinel_on_retry 1 ''__NO_CHANGES__''
   \<and> filter is_apply (fst (main sentinel_on_retry))
       = [GitApply ''not a diff'' False, GitApply ''__NO_CHANGES__'' False]
   \<and> snd (main sentinel_on_retry) = Inl PatchFailedTwice
   \<and> filter is_publication (fst (main sentinel_on_retry)) = []"
proof -
  have p: "join '' '' (argv sentinel_on_retry) \<noteq> []" "mkdtemp_ok sentinel_on_retry"
    "clone_ok sentinel_on_retry" "checkout_ok sentinel_on_retry"
    "sampleRepoContext (work_tree sentinel_on_retry) 25 40000 (globby sentinel_on_retry)
       = Inr demo_context"
    "completion sentinel_on_retry 0
       (patch_request sentinel_on_retry demo_context (join '' '' (argv sentinel_on_retry)) [])
       = Some '' not a diff ''"
    by (simp_all add: sentinel_on_retry_def demo_world_fields demo_sample)
  have t1: "trim '' not a diff '' = ''not a diff''"
    and t2: "trim ''__NO_CHANGES__'' = ''__NO_CHANGES__''"
    by (simp_all add: trim_def is_ws_def)
  have n: "trim '' not a diff '' \<noteq> ''__NO_CHANGES__''" by (simp add: t1)
  have g0: "\<not> git_apply sentinel_on_retry 0 (trim '' not a diff '')"
    and g1: "\<not> git_apply sentinel_on_retry 1 ''__NO_CHANGES__''"
    by (simp_all add: sentinel_on_retry_def demo_world_fields)
  have c1: "completion sentinel_on_retry 1
       (patch_request sentinel_on_retry demo_context (join '' '' (argv sentinel_on_retry))
          RETRY_INSTRUCTION)
       = Some ''__NO_CHANGES__''"
    by (simp add: sentinel_on_retry_def demo_world_fields)
  from retry_sentinel_is_applied [OF p n g0 c1 t2] n g0 g1 t2
  show ?thesis unfolding t1 by simp
qed

end
